theory Spec2Isabelle
  imports Complex_Main "HOL-Library.Char_ord" "HOL-Library.List_Lexorder" "HOL-Library.Sublist"
begin

section \<open>Run-time values\<close>

text \<open>
  The TypeScript types of the two source variants (\<^verbatim>\<open>src/App.tsx\<close> and the
  minimal variant \<^verbatim>\<open>part_000\<close>) are erased at run time, and a ledger read back by
  \<^verbatim>\<open>JSON.parse(raw) as Ledger\<close> is not checked against them. The state of the
  application is therefore modelled as the JavaScript value it is.

  A number is a finite value, \<^verbatim>\<open>NaN\<close> or an infinity. Finite doubles are
  represented by the rational they denote; \<^verbatim>\<open>-0\<close> is not distinguished from
  \<^verbatim>\<open>0\<close>. An object is the list of its own properties in enumeration order; the
  precedence JavaScript gives to names that are array indices is not represented.
\<close>

datatype jsnum = Fin rat | NaN | PosInf | NegInf

datatype jsval =
    Undef
  | Null
  | Boolean bool
  | Number jsnum
  | Str string
  | Arr "jsval list"
  | Obj "(string \<times> jsval) list"

datatype error = TypeError | SyntaxError

definition bindE :: "error + 'a \<Rightarrow> ('a \<Rightarrow> error + 'b) \<Rightarrow> error + 'b" where
  "bindE m f = (case m of Inl e \<Rightarrow> Inl e | Inr x \<Rightarrow> f x)"

text \<open>
  \<^verbatim>\<open>o[k] = v\<close> on an own-property list: an existing property keeps its place,
  a new one goes to the end.
\<close>

fun setProp :: "string \<Rightarrow> 'v \<Rightarrow> (string \<times> 'v) list \<Rightarrow> (string \<times> 'v) list" where
  "setProp k v [] = [(k, v)]"
| "setProp k v ((k', v') # kvs) =
     (if k' = k then (k, v) # kvs else (k', v') # setProp k v kvs)"

section \<open>JSON\<close>

text \<open>
  A JSON document. \<^verbatim>\<open>JSON.stringify\<close> and \<^verbatim>\<open>JSON.parse\<close> belong to the
  platform, not to the repository; they are modelled from ECMAScript on documents
  rather than on characters, so the layout of a text (white space, the indentation
  argument \<^verbatim>\<open>null, 2\<close>) is not represented.
\<close>

datatype json =
    JNull
  | JBool bool
  | JNum rat
  | JStr string
  | JArr "json list"
  | JObj "(string \<times> json) list"

text \<open>
  \<^verbatim>\<open>JSON.stringify(v)\<close>: \<open>None\<close> is the result \<^verbatim>\<open>undefined\<close>. A number that
  is not finite is written \<^verbatim>\<open>null\<close>; an \<^verbatim>\<open>undefined\<close> array element is
  written \<^verbatim>\<open>null\<close>; a property whose value is \<^verbatim>\<open>undefined\<close> is left out.
\<close>

fun JSON_stringify :: "jsval \<Rightarrow> json option" where
  "JSON_stringify Undef = None"
| "JSON_stringify Null = Some JNull"
| "JSON_stringify (Boolean b) = Some (JBool b)"
| "JSON_stringify (Number n) = Some (case n of Fin r \<Rightarrow> JNum r | _ \<Rightarrow> JNull)"
| "JSON_stringify (Str s) = Some (JStr s)"
| "JSON_stringify (Arr xs) =
     Some (JArr (map (\<lambda>x. case JSON_stringify x of None \<Rightarrow> JNull | Some j \<Rightarrow> j) xs))"
| "JSON_stringify (Obj kvs) =
     Some (JObj (concat (map (\<lambda>kv. case JSON_stringify (snd kv) of
                                      None \<Rightarrow> [] | Some j \<Rightarrow> [(fst kv, j)]) kvs)))"

text \<open>
  The value \<^verbatim>\<open>JSON.parse\<close> builds from a document. Members of an object are defined
  one after the other, so a repeated name keeps its first place and its last value.
  The number of a document is taken to be a double already: the rounding and the
  overflow of other literals are not represented.
\<close>

fun fromJSON :: "json \<Rightarrow> jsval" where
  "fromJSON JNull = Null"
| "fromJSON (JBool b) = Boolean b"
| "fromJSON (JNum r) = Number (Fin r)"
| "fromJSON (JStr s) = Str s"
| "fromJSON (JArr js) = Arr (map fromJSON js)"
| "fromJSON (JObj kjs) =
     Obj (foldl (\<lambda>ps kv. setProp (fst kv) (snd kv) ps) []
            (map (\<lambda>kj. (fst kj, fromJSON (snd kj))) kjs))"

text \<open>
  What local storage, an uploaded file or the text area holds. \<^verbatim>\<open>JSON.parse\<close> sees of
  a text only whether it is a JSON text and, if so, the document it denotes: \<open>Doc j\<close>
  stands for a text denoting \<open>j\<close>, \<open>Junk s\<close> for the characters \<open>s\<close> when they are
  not a JSON text. The empty string is \<open>Junk []\<close>.
\<close>

datatype rawtext = Doc json | Junk string

definition JSON_parse :: "rawtext \<Rightarrow> error + jsval" where
  "JSON_parse t = (case t of Doc j \<Rightarrow> Inr (fromJSON j) | Junk s \<Rightarrow> Inl SyntaxError)"

text \<open>
  The string \<^verbatim>\<open>localStorage.setItem(key, JSON.stringify(data))\<close> stores:
  \<^verbatim>\<open>setItem\<close> converts its argument to a string, and \<^verbatim>\<open>undefined\<close> becomes
  the nine characters \<^verbatim>\<open>undefined\<close>.
\<close>

definition stringified :: "jsval \<Rightarrow> rawtext" where
  "stringified v = (case JSON_stringify v of None \<Rightarrow> Junk ''undefined'' | Some j \<Rightarrow> Doc j)"

text \<open>Truthiness of a string, as in \<^verbatim>\<open>raw ? ... : ...\<close>: only the empty string is falsy.\<close>

definition truthy :: "rawtext \<Rightarrow> bool" where
  "truthy t = (t \<noteq> Junk [])"

section \<open>The ledger and its transformations\<close>

text \<open>
  \<^verbatim>\<open>const EMPTY: Ledger = { bloods: [], imaging: [], vitals: [], fitness: [], meds: [], notes: [] }\<close>
  (both variants).
\<close>

definition collections :: "string list" where
  "collections = [''bloods'', ''imaging'', ''vitals'', ''fitness'', ''meds'', ''notes'']"

definition EMPTY :: jsval where
  "EMPTY = Obj (map (\<lambda>k. (k, Arr [])) collections)"

text \<open>
  Reading a property, \<^verbatim>\<open>v.k\<close>, throws on \<^verbatim>\<open>undefined\<close> and \<^verbatim>\<open>null\<close>.
  The names the program reads (the six collections, \<^verbatim>\<open>id\<close>, \<^verbatim>\<open>date\<close>,
  \<^verbatim>\<open>name\<close>, \<^verbatim>\<open>text\<close>, \<^verbatim>\<open>kind\<close>) are no index, not
  \<^verbatim>\<open>length\<close> and not inherited from a prototype, so on an array, a string, a
  number or a boolean they read as \<^verbatim>\<open>undefined\<close>.
\<close>

fun getProp :: "string \<Rightarrow> jsval \<Rightarrow> error + jsval" where
  "getProp k Undef = Inl TypeError"
| "getProp k Null = Inl TypeError"
| "getProp k (Obj kvs) = Inr (case map_of kvs k of None \<Rightarrow> Undef | Some v \<Rightarrow> v)"
| "getProp k v = Inr Undef"

text \<open>Decimal index names, for the own properties of an array or a string.\<close>

fun digits :: "nat \<Rightarrow> string" where
  "digits n = (if n < 10 then [char_of (48 + n)]
               else digits (n div 10) @ [char_of (48 + n mod 10)])"

text \<open>The own enumerable properties an object spread \<^verbatim>\<open>{ ...p }\<close> copies.\<close>

fun ownProps :: "jsval \<Rightarrow> (string \<times> jsval) list" where
  "ownProps (Obj kvs) = kvs"
| "ownProps (Arr xs) = zip (map digits [0..<length xs]) xs"
| "ownProps (Str s) = zip (map digits [0..<length s]) (map (\<lambda>c. Str [c]) s)"
| "ownProps v = []"

text \<open>The elements an array spread \<^verbatim>\<open>[...c]\<close> takes: only arrays and strings iterate.\<close>

fun iterate :: "jsval \<Rightarrow> error + jsval list" where
  "iterate (Arr xs) = Inr xs"
| "iterate (Str s) = Inr (map (\<lambda>c. Str [c]) s)"
| "iterate v = Inl TypeError"

text \<open>
  \<^verbatim>\<open>c.filter(pred)\<close>: elements are tested from left to right; on anything but an
  array there is no function \<^verbatim>\<open>filter\<close> to call.
\<close>

fun filterE :: "('a \<Rightarrow> error + bool) \<Rightarrow> 'a list \<Rightarrow> error + 'a list" where
  "filterE P [] = Inr []"
| "filterE P (x # xs) =
     bindE (P x) (\<lambda>b. bindE (filterE P xs) (\<lambda>ys. Inr (if b then x # ys else ys)))"

fun Array_filter :: "(jsval \<Rightarrow> error + bool) \<Rightarrow> jsval \<Rightarrow> error + jsval" where
  "Array_filter P (Arr xs) = bindE (filterE P xs) (\<lambda>ys. Inr (Arr ys))"
| "Array_filter P v = Inl TypeError"

text \<open>
  The state transformation every add handler passes to \<^verbatim>\<open>setDb\<close>, for the
  collection named \<open>k\<close>:
  \<^verbatim>\<open>(p) => ({ ...p, bloods: [...p.bloods, form] })\<close>
  (App.tsx: Bloods, Imaging, VitalsTab, FitnessTab, MedsTab, NotesTab; part_000:
  addBlood, addNote).
\<close>

definition addRecord :: "string \<Rightarrow> jsval \<Rightarrow> jsval \<Rightarrow> error + jsval" where
  "addRecord k form p =
     bindE (getProp k p) (\<lambda>c.
     bindE (iterate c) (\<lambda>xs.
     Inr (Obj (setProp k (Arr (xs @ [form])) (ownProps p)))))"

text \<open>
  The transformation of every delete handler:
  \<^verbatim>\<open>(p) => ({ ...p, bloods: p.bloods.filter((b) => b.id !== id) })\<close>
  (App.tsx only; the minimal variant has no delete).
\<close>

definition deleteRecord :: "string \<Rightarrow> string \<Rightarrow> jsval \<Rightarrow> error + jsval" where
  "deleteRecord k i p =
     bindE (getProp k p) (\<lambda>c.
     bindE (Array_filter (\<lambda>b. bindE (getProp ''id'' b) (\<lambda>v. Inr (v \<noteq> Str i))) c) (\<lambda>c'.
     Inr (Obj (setProp k c' (ownProps p)))))"

subsection \<open>Well-shaped ledgers\<close>

text \<open>
  What the TypeScript types \<^verbatim>\<open>Ledger\<close> and the six record types promise of a value:
  an object with the six collections, each an array of objects that carry a string
  \<^verbatim>\<open>id\<close> and a string \<^verbatim>\<open>date\<close>.
\<close>

fun is_record :: "jsval \<Rightarrow> bool" where
  "is_record (Obj kvs) =
     (case (map_of kvs ''id'', map_of kvs ''date'') of
        (Some (Str i), Some (Str d)) \<Rightarrow> True
      | _ \<Rightarrow> False)"
| "is_record v = False"

fun is_collection :: "jsval \<Rightarrow> bool" where
  "is_collection (Arr xs) = list_all is_record xs"
| "is_collection v = False"

fun is_ledger :: "jsval \<Rightarrow> bool" where
  "is_ledger (Obj kvs) =
     list_all (\<lambda>k. case map_of kvs k of Some c \<Rightarrow> is_collection c | None \<Rightarrow> False) collections"
| "is_ledger v = False"

text \<open>The records of collection \<open>k\<close>, and the identifier and the date of a record.\<close>

definition coll :: "string \<Rightarrow> jsval \<Rightarrow> jsval list" where
  "coll k p = (case getProp k p of Inr (Arr xs) \<Rightarrow> xs | _ \<Rightarrow> [])"

definition idOf :: "jsval \<Rightarrow> jsval" where
  "idOf b = (case getProp ''id'' b of Inr v \<Rightarrow> v | Inl e \<Rightarrow> Undef)"

definition dateOf :: "jsval \<Rightarrow> string" where
  "dateOf b = (case getProp ''date'' b of Inr (Str d) \<Rightarrow> d | _ \<Rightarrow> [])"

section \<open>Derived views\<close>

text \<open>
  App.tsx, \<^verbatim>\<open>latestBlood\<close> and \<^verbatim>\<open>latestVitals\<close>:
  \<^verbatim>\<open>[...db.bloods].sort((a, b) => a.date.localeCompare(b.date)).at(-1)\<close>.

  \<^verbatim>\<open>Array.prototype.sort\<close> is stable, leaves \<^verbatim>\<open>undefined\<close> elements at the end
  without comparing them, and calls the comparator only when there are two elements
  or more to order. What the comparator answers belongs to the platform:
  \<^verbatim>\<open>localeCompare\<close> follows the collation of the locale, which on dates of the
  form \<^verbatim>\<open>YYYY-MM-DD\<close> (\<^verbatim>\<open>type ISODate = string; // YYYY-MM-DD\<close>) is the
  lexical order of the characters, the order of \<^typ>\<open>string\<close> here, and on other
  strings need not be; and it throws when its receiver \<^verbatim>\<open>a.date\<close> is not a string,
  where the pairs an engine compares are its own choice. The model gives the result
  where the code determines it, and \<open>Unspecified\<close> where the platform decides: when an
  element to be ordered has no date of that form.
\<close>

datatype 'a view = Returns 'a | Throws error | Unspecified

definition isoDate :: "string \<Rightarrow> bool" where
  "isoDate s =
     (length s = 10 \<and> s ! 4 = CHR ''-'' \<and> s ! 7 = CHR ''-''
      \<and> list_all (\<lambda>c. c \<in> set ''0123456789'') (take 4 s @ take 2 (drop 5 s) @ drop 8 s))"

definition has_isoDate :: "jsval \<Rightarrow> bool" where
  "has_isoDate b = (case getProp ''date'' b of Inr (Str d) \<Rightarrow> isoDate d | _ \<Rightarrow> False)"

definition sortByDate :: "jsval list \<Rightarrow> jsval list view" where
  "sortByDate xs =
     (let ys = filter (\<lambda>x. x \<noteq> Undef) xs; us = filter (\<lambda>x. x = Undef) xs
      in if length ys < 2 then Returns (ys @ us)
         else if list_all has_isoDate ys then Returns (sort_key dateOf ys @ us)
         else Unspecified)"

text \<open>\<^verbatim>\<open>xs.at(-1)\<close> on an array: the last element, \<^verbatim>\<open>undefined\<close> if there is none.\<close>

definition at_last :: "jsval list \<Rightarrow> jsval" where
  "at_last xs = (if xs = [] then Undef else last xs)"

definition latestOf :: "jsval \<Rightarrow> jsval view" where
  "latestOf c =
     (case iterate c of
        Inl e \<Rightarrow> Throws e
      | Inr xs \<Rightarrow>
          (case sortByDate xs of
             Returns ys \<Rightarrow> Returns (at_last ys)
           | Throws e \<Rightarrow> Throws e
           | Unspecified \<Rightarrow> Unspecified))"

definition latestBlood :: "jsval \<Rightarrow> jsval view" where
  "latestBlood db = (case getProp ''bloods'' db of Inl e \<Rightarrow> Throws e | Inr c \<Rightarrow> latestOf c)"

definition latestVitals :: "jsval \<Rightarrow> jsval view" where
  "latestVitals db = (case getProp ''vitals'' db of Inl e \<Rightarrow> Throws e | Inr c \<Rightarrow> latestOf c)"

text \<open>
  part_000, \<^verbatim>\<open>summary\<close>: \<^verbatim>\<open>const recentBlood = db.bloods.at(-1)\<close>. There is no
  sort. A string has a method \<^verbatim>\<open>at\<close> as well; other values have none.
\<close>

fun Array_at_last :: "jsval \<Rightarrow> error + jsval" where
  "Array_at_last (Arr xs) = Inr (at_last xs)"
| "Array_at_last (Str s) = Inr (if s = [] then Undef else Str [last s])"
| "Array_at_last v = Inl TypeError"

definition recentBlood :: "jsval \<Rightarrow> error + jsval" where
  "recentBlood db = bindE (getProp ''bloods'' db) Array_at_last"

section \<open>Profiles and persistence\<close>

text \<open>
  \<^verbatim>\<open>const PROFILES = ["Paul", "Claire"] as const\<close> and
  \<^verbatim>\<open>const storageKey = (p: Profile) => `longevity-ledger-${p}`\<close> (both variants).
\<close>

datatype Profile = Paul | Claire

fun profileName :: "Profile \<Rightarrow> string" where
  "profileName Paul = ''Paul''"
| "profileName Claire = ''Claire''"

definition storageKey :: "Profile \<Rightarrow> string" where
  "storageKey p = ''longevity-ledger-'' @ profileName p"

type_synonym storage = "string \<Rightarrow> rawtext option"

text \<open>
  App.tsx:
  \<^verbatim>\<open>
  function loadFor(p: Profile): Ledger {
    try {
      const raw = localStorage.getItem(storageKey(p));
      return raw ? (JSON.parse(raw) as Ledger) : EMPTY;
    } catch { return EMPTY; }
  }
  function saveFor(p: Profile, data: Ledger) {
    localStorage.setItem(storageKey(p), JSON.stringify(data));
  }\<close>
\<close>

definition loadFor :: "storage \<Rightarrow> Profile \<Rightarrow> jsval" where
  "loadFor st p =
     (case st (storageKey p) of
        None \<Rightarrow> EMPTY
      | Some raw \<Rightarrow>
          if truthy raw then (case JSON_parse raw of Inr v \<Rightarrow> v | Inl e \<Rightarrow> EMPTY)
          else EMPTY)"

definition saveFor :: "storage \<Rightarrow> Profile \<Rightarrow> jsval \<Rightarrow> storage" where
  "saveFor st p data = st(storageKey p \<mapsto> stringified data)"

text \<open>
  part_000, the load effect, with no \<^verbatim>\<open>try\<close> around it:
  \<^verbatim>\<open>
  const raw = localStorage.getItem(storageKey(profile));
  setDb(raw ? (JSON.parse(raw) as Ledger) : EMPTY);\<close>
\<close>

definition App_load :: "storage \<Rightarrow> Profile \<Rightarrow> error + jsval" where
  "App_load st p =
     (case st (storageKey p) of
        None \<Rightarrow> Inr EMPTY
      | Some raw \<Rightarrow> if truthy raw then JSON_parse raw else Inr EMPTY)"

subsection \<open>The component state and the handlers\<close>

text \<open>
  The state of the top component together with local storage. part_000:
  \<^verbatim>\<open>
  const [profile, setProfile] = useState<Profile>("Paul");
  const [tab, setTab] = useState<Tab>("dashboard");
  const [db, setDb] = useState<Ledger>(EMPTY);\<close>
  and the same in App.tsx, where the tab is kept outside the component.
\<close>

datatype Tab =
    Dashboard | BloodsTab | ImagingTab | VitalsTab | FitnessTab | MedsTab | NotesTab
  | ImportExportTab

record app =
  profile :: Profile
  tab :: Tab
  db :: jsval
  localStorage :: storage

text \<open>
  The three setters change the state in memory and nothing else; a handler returns
  the state it has set. What React then does with it, the render and the effects, is
  \<open>commit\<close> below.
\<close>

definition setDb :: "jsval \<Rightarrow> app \<Rightarrow> app" where
  "setDb v a = a\<lparr>db := v\<rparr>"

definition setProfile :: "Profile \<Rightarrow> app \<Rightarrow> app" where
  "setProfile p a = a\<lparr>profile := p\<rparr>"

definition setTab :: "Tab \<Rightarrow> app \<Rightarrow> app" where
  "setTab t a = a\<lparr>tab := t\<rparr>"

text \<open>\<^verbatim>\<open>setDb((p) => ...)\<close> with a transformation that may throw.\<close>

definition update :: "(jsval \<Rightarrow> error + jsval) \<Rightarrow> app \<Rightarrow> error + app" where
  "update f a = bindE (f (db a)) (\<lambda>v. Inr (setDb v a))"

subsection \<open>Import, export, reset\<close>

text \<open>
  App.tsx, \<^verbatim>\<open>ImportExport.upload\<close>; the argument is the text of the chosen file, if
  a file was chosen, and the second result is the alert shown, if any:
  \<^verbatim>\<open>
  const f = e.target.files?.[0];
  if (!f) return;
  ...
  try {
    const obj = JSON.parse(String(reader.result));
    setDb(obj);
    setRaw(JSON.stringify(obj, null, 2));
  } catch { alert("Invalid file"); }\<close>
\<close>

definition upload :: "rawtext option \<Rightarrow> app \<Rightarrow> app \<times> string option" where
  "upload f a =
     (case f of
        None \<Rightarrow> (a, None)
      | Some t \<Rightarrow>
          (case JSON_parse t of
             Inr obj \<Rightarrow> (setDb obj a, None)
           | Inl e \<Rightarrow> (a, Some ''Invalid file'')))"

text \<open>
  part_000, \<^verbatim>\<open>importJson\<close>, on the text of the text area:
  \<^verbatim>\<open>
  try {
    const parsed = JSON.parse(raw) as Ledger;
    setDb(parsed);
    alert("Imported JSON for " + profile);
  } catch (e) { alert("Invalid JSON"); }\<close>
\<close>

definition importJson :: "rawtext \<Rightarrow> app \<Rightarrow> app \<times> string" where
  "importJson raw a =
     (case JSON_parse raw of
        Inr parsed \<Rightarrow> (setDb parsed a, ''Imported JSON for '' @ profileName (profile a))
      | Inl e \<Rightarrow> (a, ''Invalid JSON''))"

text \<open>
  Both variants: \<^verbatim>\<open>if (confirm(`Clear all data for ${profile}?`)) setDb(EMPTY)\<close>;
  the argument is the answer to the prompt.
\<close>

definition resetAll :: "bool \<Rightarrow> app \<Rightarrow> app" where
  "resetAll confirmed a = (if confirmed then setDb EMPTY a else a)"

text \<open>part_000, \<^verbatim>\<open>exportJson\<close>: the text put into the text area.\<close>

definition exportJson :: "app \<Rightarrow> rawtext" where
  "exportJson a = stringified (db a)"

text \<open>
  The four kinds of mutation of the ledger in memory: the state each asks for, or
  the error of its transformation.
\<close>

datatype mutation = Add string jsval | Delete string string | Import rawtext | Reset

fun mutate :: "mutation \<Rightarrow> app \<Rightarrow> error + app" where
  "mutate (Add k form) a = update (addRecord k form) a"
| "mutate (Delete k i) a = update (deleteRecord k i) a"
| "mutate (Import t) a = Inr (fst (upload (Some t) a))"
| "mutate Reset a = Inr (resetAll True a)"

subsection \<open>Render and effects\<close>

text \<open>
  After a handler React renders the new state and then runs the effects whose
  dependencies changed, in the order of their declaration and with the values of that
  render. Both variants declare the load effect first and the save effect second; in
  App.tsx:
  \<^verbatim>\<open>
  useEffect(() => { setDb(loadFor(profile)); }, [profile]);
  useEffect(() => { saveFor(profile, db); }, [db, profile]);\<close>
  A state change made by an effect leads to another render and another round of
  effects.

  A render can throw, and no error boundary catches it: React then takes the
  application down, and the effects of that render do not run. Whether the render of
  a ledger throws is decided by the views computed on every render (App.tsx:
  \<^verbatim>\<open>latestBlood\<close>, \<^verbatim>\<open>latestVitals\<close>, \<^verbatim>\<open>bloodTrend\<close>; part_000: \<^verbatim>\<open>summary\<close>),
  by the markup of the open tab (such as \<^verbatim>\<open>mgdl\<close>, which calls \<^verbatim>\<open>v.toFixed\<close> on
  whatever is not \<^verbatim>\<open>undefined\<close>), by React's check of every value displayed and by
  the chart library. The model takes it as a parameter: \<open>renders t v\<close> says that the
  render of the ledger \<open>v\<close> with the tab \<open>t\<close> open completes. Every definition and
  theorem below holds for whatever \<open>renders\<close> is.

  The application taken down: by an error thrown in an effect, or by a render, with
  what local storage holds at that moment.
\<close>

datatype crash = EffectThrew error | RenderThrew storage

text \<open>
  The round of effects after a change of profile, and after the first render: the
  load effect reads the slot of the profile, the save effect then writes the ledger
  still in memory into that slot; the render of the loaded ledger follows, and only
  if it completes does the save effect run again and write the loaded ledger.
\<close>

definition loadAndSave :: "(Tab \<Rightarrow> jsval \<Rightarrow> bool) \<Rightarrow> app \<Rightarrow> crash + app" where
  "loadAndSave renders a =
     (let p = profile a;
          v = loadFor (localStorage a) p;
          s1 = saveFor (localStorage a) p (db a)
      in if renders (tab a) v then Inr (a\<lparr>db := v, localStorage := saveFor s1 p v\<rparr>)
         else Inl (RenderThrew s1))"

text \<open>
  From the state \<open>old\<close> on the screen to the state \<open>new\<close> a handler has set. When
  the handler has set nothing new there is no render. A new ledger under the same
  profile runs the save effect alone; a new tab runs no effect. (React compares
  ledgers by identity, the model by value. They differ when a handler sets a new
  object equal to the ledger in memory, as a delete of an identifier that no record
  has: React then renders the same ledger again and runs the save effect, which
  writes once more the text the slot holds already, see \<open>saved\<close> below.)
\<close>

definition commit :: "(Tab \<Rightarrow> jsval \<Rightarrow> bool) \<Rightarrow> app \<Rightarrow> app \<Rightarrow> crash + app" where
  "commit renders old new =
     (if profile new = profile old \<and> tab new = tab old \<and> db new = db old then Inr new
      else if \<not> renders (tab new) (db new) then Inl (RenderThrew (localStorage new))
      else if profile new \<noteq> profile old then loadAndSave renders new
      else if db new \<noteq> db old
        then Inr (new\<lparr>localStorage := saveFor (localStorage new) (profile new) (db new)\<rparr>)
      else Inr new)"

text \<open>
  The first render, of \<^verbatim>\<open>useState<Profile>("Paul")\<close>, the dashboard and
  \<^verbatim>\<open>useState<Ledger>(EMPTY)\<close>, after which both effects run.
\<close>

definition mount :: "(Tab \<Rightarrow> jsval \<Rightarrow> bool) \<Rightarrow> storage \<Rightarrow> crash + app" where
  "mount renders st =
     (if \<not> renders Dashboard EMPTY then Inl (RenderThrew st)
      else loadAndSave renders
             \<lparr>profile = Paul, tab = Dashboard, db = EMPTY, localStorage = st\<rparr>)"

text \<open>
  part_000: the same, except that its load effect can throw. The error is caught
  nowhere and takes the application down; whether React still runs the save effect
  of that round depends on its version, so the crash carries no storage.
\<close>

definition App_loadAndSave :: "(Tab \<Rightarrow> jsval \<Rightarrow> bool) \<Rightarrow> app \<Rightarrow> crash + app" where
  "App_loadAndSave renders a =
     (case App_load (localStorage a) (profile a) of
        Inl e \<Rightarrow> Inl (EffectThrew e)
      | Inr v \<Rightarrow>
          (let p = profile a;
               s1 = saveFor (localStorage a) p (db a)
           in if renders (tab a) v then Inr (a\<lparr>db := v, localStorage := saveFor s1 p v\<rparr>)
              else Inl (RenderThrew s1)))"

definition App_commit :: "(Tab \<Rightarrow> jsval \<Rightarrow> bool) \<Rightarrow> app \<Rightarrow> app \<Rightarrow> crash + app" where
  "App_commit renders old new =
     (if profile new = profile old \<and> tab new = tab old \<and> db new = db old then Inr new
      else if \<not> renders (tab new) (db new) then Inl (RenderThrew (localStorage new))
      else if profile new \<noteq> profile old then App_loadAndSave renders new
      else if db new \<noteq> db old
        then Inr (new\<lparr>localStorage := saveFor (localStorage new) (profile new) (db new)\<rparr>)
      else Inr new)"

definition App_mount :: "(Tab \<Rightarrow> jsval \<Rightarrow> bool) \<Rightarrow> storage \<Rightarrow> crash + app" where
  "App_mount renders st =
     (if \<not> renders Dashboard EMPTY then Inl (RenderThrew st)
      else App_loadAndSave renders
             \<lparr>profile = Paul, tab = Dashboard, db = EMPTY, localStorage = st\<rparr>)"

subsection \<open>Events\<close>

text \<open>
  A mutation and what follows it. A transformation handed to \<^verbatim>\<open>setDb\<close> runs while
  React renders, so its error is an error of the render. No mutation changes the
  profile, so the load effect does not run and the two variants commit a mutation
  alike.
\<close>

definition perform :: "(Tab \<Rightarrow> jsval \<Rightarrow> bool) \<Rightarrow> mutation \<Rightarrow> app \<Rightarrow> crash + app" where
  "perform renders m a =
     (case mutate m a of
        Inl e \<Rightarrow> Inl (RenderThrew (localStorage a))
      | Inr a' \<Rightarrow> commit renders a a')"

text \<open>Selecting a profile, in App.tsx and in part_000, and opening a tab.\<close>

definition selectProfile :: "(Tab \<Rightarrow> jsval \<Rightarrow> bool) \<Rightarrow> Profile \<Rightarrow> app \<Rightarrow> crash + app" where
  "selectProfile renders p a = commit renders a (setProfile p a)"

definition App_selectProfile :: "(Tab \<Rightarrow> jsval \<Rightarrow> bool) \<Rightarrow> Profile \<Rightarrow> app \<Rightarrow> crash + app" where
  "App_selectProfile renders p a = App_commit renders a (setProfile p a)"

definition openTab :: "(Tab \<Rightarrow> jsval \<Rightarrow> bool) \<Rightarrow> Tab \<Rightarrow> app \<Rightarrow> crash + app" where
  "openTab renders t a = commit renders a (setTab t a)"

text \<open>What a user does under one profile: mutations and changes of tab, in any order.\<close>

datatype event = Mutation mutation | OpenTab Tab

fun step :: "(Tab \<Rightarrow> jsval \<Rightarrow> bool) \<Rightarrow> event \<Rightarrow> app \<Rightarrow> crash + app" where
  "step renders (Mutation m) a = perform renders m a"
| "step renders (OpenTab t) a = openTab renders t a"

fun run :: "(Tab \<Rightarrow> jsval \<Rightarrow> bool) \<Rightarrow> event list \<Rightarrow> app \<Rightarrow> crash + app" where
  "run renders [] a = Inr a"
| "run renders (e # es) a =
     (case step renders e a of Inl c \<Rightarrow> Inl c | Inr a' \<Rightarrow> run renders es a')"

text \<open>
  Invariants of the states the application reaches: the slot of the active profile
  holds what the save effect wrote from the ledger in memory; a slot is readable
  when \<^verbatim>\<open>JSON.parse\<close> is not called on it or does not throw on it.
\<close>

definition saved :: "app \<Rightarrow> bool" where
  "saved a = (localStorage a (storageKey (profile a)) = Some (stringified (db a)))"

fun readable :: "rawtext option \<Rightarrow> bool" where
  "readable None = True"
| "readable (Some (Doc j)) = True"
| "readable (Some (Junk s)) = (s = [])"

text \<open>
  Values that \<^verbatim>\<open>JSON.stringify\<close> writes without loss: no \<^verbatim>\<open>undefined\<close>, no
  number that is not finite, no property name twice in an object.
\<close>

fun representable :: "jsval \<Rightarrow> bool" where
  "representable Undef = False"
| "representable Null = True"
| "representable (Boolean b) = True"
| "representable (Number n) = (case n of Fin r \<Rightarrow> True | _ \<Rightarrow> False)"
| "representable (Str s) = True"
| "representable (Arr xs) = list_all representable xs"
| "representable (Obj kvs) =
     (distinct (map fst kvs) \<and> list_all (\<lambda>kv. representable (snd kv)) kvs)"

section \<open>Forms and identifiers\<close>

text \<open>
  \<^verbatim>\<open>const uid = () => Math.random().toString(36).slice(2)\<close> (both variants). The
  argument is the text \<^verbatim>\<open>Math.random().toString(36)\<close> of the number drawn, such as
  \<^verbatim>\<open>0.4fzyo82mvyr\<close>; the draw itself belongs to the platform.
\<close>

definition uid :: "string \<Rightarrow> string" where
  "uid r = drop 2 r"

text \<open>App.tsx: \<^verbatim>\<open>function numberOrEmpty(v?: number) { return v ?? undefined; }\<close>\<close>

definition numberOrEmpty :: "jsval \<Rightarrow> jsval" where
  "numberOrEmpty v = (if v = Null \<or> v = Undef then Undef else v)"

text \<open>\<^verbatim>\<open>setForm({ ...form, k: v })\<close>\<close>

definition setField :: "string \<Rightarrow> jsval \<Rightarrow> jsval \<Rightarrow> jsval" where
  "setField k v form = Obj (setProp k v (ownProps form))"

text \<open>
  App.tsx, every number input, here for \<^verbatim>\<open>apoB\<close>:
  \<^verbatim>\<open>onChange={(e) => setForm({ ...form, apoB: numberOrEmpty(parseFloat(e.target.value)) })}\<close>.
  The argument \<open>x\<close> is the number \<^verbatim>\<open>parseFloat\<close> returns for the text of the
  input, which is \<^verbatim>\<open>NaN\<close> for the empty text of a cleared input.
\<close>

definition setNumber :: "string \<Rightarrow> jsnum \<Rightarrow> jsval \<Rightarrow> jsval" where
  "setNumber k x form = setField k (numberOrEmpty (Number x)) form"

text \<open>
  The form a tab starts with and returns to after a save:
  \<^verbatim>\<open>{ id: uid(), date: today() }\<close>, with further properties in three of the tabs.
  The arguments \<open>r\<close> and \<open>d\<close> are the random text and the date of the day.
\<close>

definition freshForm :: "(string \<times> jsval) list \<Rightarrow> string \<Rightarrow> string \<Rightarrow> jsval" where
  "freshForm extra r d = Obj ([(''id'', Str (uid r)), (''date'', Str d)] @ extra)"

text \<open>
  App.tsx, \<^verbatim>\<open>Bloods.add\<close>, on the form and the ledger:
  \<^verbatim>\<open>
  setDb((p) => ({ ...p, bloods: [...p.bloods, form] }));
  setForm({ id: uid(), date: today() });\<close>
  \<^verbatim>\<open>VitalsTab.add\<close> and \<^verbatim>\<open>FitnessTab.add\<close> are the same on their collections;
  \<^verbatim>\<open>Imaging.add\<close> starts its forms with \<^verbatim>\<open>type: "CAC"\<close>.
\<close>

fun Bloods_add :: "string \<Rightarrow> string \<Rightarrow> jsval \<times> jsval \<Rightarrow> error + jsval \<times> jsval" where
  "Bloods_add r d (form, p) =
     bindE (addRecord ''bloods'' form p) (\<lambda>p'. Inr (freshForm [] r d, p'))"

fun VitalsTab_add :: "string \<Rightarrow> string \<Rightarrow> jsval \<times> jsval \<Rightarrow> error + jsval \<times> jsval" where
  "VitalsTab_add r d (form, p) =
     bindE (addRecord ''vitals'' form p) (\<lambda>p'. Inr (freshForm [] r d, p'))"

fun FitnessTab_add :: "string \<Rightarrow> string \<Rightarrow> jsval \<times> jsval \<Rightarrow> error + jsval \<times> jsval" where
  "FitnessTab_add r d (form, p) =
     bindE (addRecord ''fitness'' form p) (\<lambda>p'. Inr (freshForm [] r d, p'))"

fun Imaging_add :: "string \<Rightarrow> string \<Rightarrow> jsval \<times> jsval \<Rightarrow> error + jsval \<times> jsval" where
  "Imaging_add r d (form, p) =
     bindE (addRecord ''imaging'' form p) (\<lambda>p'. Inr (freshForm [(''type'', Str ''CAC'')] r d, p'))"

text \<open>
  \<^verbatim>\<open>s.trim()\<close>, on the white space there is among 8-bit characters.
\<close>

definition is_space :: "char \<Rightarrow> bool" where
  "is_space c = (of_char c \<in> {9, 10, 11, 12, 13, 32, 160 :: nat})"

definition trim :: "string \<Rightarrow> string" where
  "trim s = rev (dropWhile is_space (rev (dropWhile is_space s)))"

text \<open>
  App.tsx, \<^verbatim>\<open>MedsTab.add\<close> and \<^verbatim>\<open>NotesTab.add\<close>, which save nothing for a blank
  name or text:
  \<^verbatim>\<open>
  if (!form.name.trim()) return;
  setDb((p) => ({ ...p, meds: [...p.meds, form] }));
  setForm({ id: uid(), date: today(), kind: form.kind, name: "" });\<close>
\<close>

fun MedsTab_add :: "string \<Rightarrow> string \<Rightarrow> jsval \<times> jsval \<Rightarrow> error + jsval \<times> jsval" where
  "MedsTab_add r d (form, p) =
     bindE (getProp ''name'' form) (\<lambda>n.
       case n of
         Str s \<Rightarrow>
           if trim s = [] then Inr (form, p)
           else bindE (addRecord ''meds'' form p) (\<lambda>p'.
                bindE (getProp ''kind'' form) (\<lambda>kind.
                Inr (freshForm [(''kind'', kind), (''name'', Str [])] r d, p')))
       | _ \<Rightarrow> Inl TypeError)"

fun NotesTab_add :: "string \<Rightarrow> string \<Rightarrow> jsval \<times> jsval \<Rightarrow> error + jsval \<times> jsval" where
  "NotesTab_add r d (form, p) =
     bindE (getProp ''text'' form) (\<lambda>n.
       case n of
         Str s \<Rightarrow>
           if trim s = [] then Inr (form, p)
           else bindE (addRecord ''notes'' form p) (\<lambda>p'.
                Inr (freshForm [(''text'', Str [])] r d, p'))
       | _ \<Rightarrow> Inl TypeError)"

text \<open>
  part_000, \<^verbatim>\<open>addBlood\<close> and \<^verbatim>\<open>addNote\<close>, which build the record themselves:
  \<^verbatim>\<open>
  const panel: BloodPanel = { id: uid(), date: today(), apoB: 85, ldl: 95, a1c: 5.3, notes: "example" };
  setDb((d) => ({ ...d, bloods: [...d.bloods, panel] }));\<close>
\<close>

definition addBlood :: "string \<Rightarrow> string \<Rightarrow> jsval \<Rightarrow> error + jsval" where
  "addBlood r d =
     addRecord ''bloods''
       (Obj [(''id'', Str (uid r)), (''date'', Str d), (''apoB'', Number (Fin 85)),
             (''ldl'', Number (Fin 95)), (''a1c'', Number (Fin (53 / 10))),
             (''notes'', Str ''example'')])"

definition addNote :: "string \<Rightarrow> string \<Rightarrow> jsval \<Rightarrow> error + jsval" where
  "addNote r d =
     addRecord ''notes''
       (Obj [(''id'', Str (uid r)), (''date'', Str d), (''text'', Str ''Example note'')])"

section \<open>Sample data\<close>

text \<open>
  The two blood panels of the scenarios (January with ApoB 85, March with ApoB 70),
  a ledger holding given blood panels and no other record, and a panel saved from a
  form whose ApoB input was filled and cleared again.
\<close>

definition january :: jsval where
  "january = setNumber ''apoB'' (Fin 85) (freshForm [] ''0.k3x9'' ''2024-01-10'')"

definition march :: jsval where
  "march = setNumber ''apoB'' (Fin 70) (freshForm [] ''0.p7q2'' ''2024-03-01'')"

definition cleared :: jsval where
  "cleared = setNumber ''apoB'' NaN (freshForm [] ''0.w5m1'' ''2024-05-20'')"

definition withBloods :: "jsval list \<Rightarrow> jsval" where
  "withBloods xs = Obj (setProp ''bloods'' (Arr xs) (ownProps EMPTY))"

text \<open>
  A browser whose storage is empty, and one whose slot for Claire is damaged.
\<close>

definition noStorage :: storage where
  "noStorage = Map.empty"

definition damaged :: storage where
  "damaged = Map.empty(storageKey Claire \<mapsto> Junk ''{broken'')"

text \<open>
  For the sample runs, a render that completes on the well-shaped ledgers, on every
  tab. The runs visit the empty ledger and ledgers holding the panels above, which
  both variants render on every tab, and the number 5, which neither renders on any:
  \<^verbatim>\<open>db.bloods\<close> is \<^verbatim>\<open>undefined\<close> then, and both \<^verbatim>\<open>[...db.bloods]\<close> and
  \<^verbatim>\<open>db.bloods.at(-1)\<close> throw.
\<close>

definition rendersWellShaped :: "Tab \<Rightarrow> jsval \<Rightarrow> bool" where
  "rendersWellShaped t v = is_ledger v"

text \<open>
  The application after Paul saved the January panel in the empty browser and opened
  the import and export tab, and the application started in the damaged one.
\<close>

definition paulsApp :: app where
  "paulsApp =
     \<lparr>profile = Paul, tab = ImportExportTab, db = withBloods [january],
      localStorage = saveFor noStorage Paul (withBloods [january])\<rparr>"

definition damagedApp :: app where
  "damagedApp =
     \<lparr>profile = Paul, tab = Dashboard, db = EMPTY,
      localStorage = saveFor damaged Paul EMPTY\<rparr>"

section \<open>The specification's words\<close>


section \<open>Properties of the transformations\<close>

lemma map_of_setProp:
  "map_of (setProp k v kvs) k' = (if k' = k then Some v else map_of kvs k')"
  by (induction kvs) auto

lemma setProp_same: "map_of kvs k = Some v \<Longrightarrow> setProp k v kvs = kvs"
  by (induction kvs) (auto split: if_splits)


lemma filterE_total:
  "(\<And>x. x \<in> set xs \<Longrightarrow> P x = Inr (Q x)) \<Longrightarrow> filterE P xs = Inr (filter Q xs)"
  by (induction xs) (auto simp: bindE_def)

lemma is_record_id: "is_record b \<Longrightarrow> getProp ''id'' b = Inr (idOf b)"
  by (cases b) (auto simp: idOf_def)

lemma is_ledger_coll:
  assumes "is_ledger p" and "k \<in> set collections"
  obtains kvs xs where "p = Obj kvs" and "map_of kvs k = Some (Arr xs)"
    and "list_all is_record xs"
proof -
  from assms(1) obtain kvs where p: "p = Obj kvs" by (cases p) auto
  with assms have "case map_of kvs k of Some c \<Rightarrow> is_collection c | None \<Rightarrow> False"
    by (simp add: list_all_iff)
  then obtain c where c: "map_of kvs k = Some c" "is_collection c"
    by (auto split: option.splits)
  then obtain xs where "c = Arr xs" "list_all is_record xs" by (cases c) auto
  with p c that show thesis by blast
qed

lemma coll_Obj: "map_of kvs k = Some (Arr xs) \<Longrightarrow> coll k (Obj kvs) = xs"
  by (simp add: coll_def)

lemma addRecord_Obj:
  "map_of kvs k = Some (Arr xs) \<Longrightarrow>
   addRecord k r (Obj kvs) = Inr (Obj (setProp k (Arr (xs @ [r])) kvs))"
  by (simp add: addRecord_def bindE_def)

lemma deleteRecord_Obj:
  assumes "map_of kvs k = Some (Arr xs)" and "list_all is_record xs"
  shows "deleteRecord k i (Obj kvs)
         = Inr (Obj (setProp k (Arr (filter (\<lambda>b. idOf b \<noteq> Str i) xs)) kvs))"
proof -
  have "filterE (\<lambda>b. bindE (getProp ''id'' b) (\<lambda>v. Inr (v \<noteq> Str i))) xs
        = Inr (filter (\<lambda>b. idOf b \<noteq> Str i) xs)"
    using assms(2) by (intro filterE_total) (simp add: list_all_iff is_record_id bindE_def)
  with assms(1) show ?thesis by (simp add: deleteRecord_def bindE_def)
qed

lemmas sample_defs =
  january_def march_def cleared_def withBloods_def setNumber_def setField_def
  numberOrEmpty_def freshForm_def uid_def EMPTY_def collections_def

lemma is_ledger_samples:
  "is_ledger EMPTY" "is_ledger (withBloods [january])" "is_ledger (withBloods [january, march])"
  "is_ledger (withBloods [march, january])"
  by (simp_all add: sample_defs)

text \<open>
  C8. On a well-shaped ledger, \<open>addRecord\<close> for a collection returns a ledger whose
  collection of that name is the previous one with the record appended at the end,
  and in which every other property, so each of the other five collections, reads
  as before. (\<open>addRecord\<close> is the transformation the add handlers hand to
  \<^verbatim>\<open>setDb\<close>; \<open>MedsTab_add\<close> and \<open>NotesTab_add\<close> hand it over only for a name or
  text that is not blank.)
\<close>

theorem addRecord_appends:
  assumes "is_ledger p" and "k \<in> set collections"
  shows "\<exists>p'. addRecord k r p = Inr p'
            \<and> coll k p' = coll k p @ [r]
            \<and> (\<forall>k'. k' \<noteq> k \<longrightarrow> getProp k' p' = getProp k' p)"
proof -
  from assms obtain kvs xs where "p = Obj kvs" and "map_of kvs k = Some (Arr xs)"
    by (rule is_ledger_coll)
  then show ?thesis
    by (simp add: addRecord_Obj coll_def map_of_setProp)
qed

theorem addRecord_appends_witness:
  "is_ledger (withBloods [january]) \<and> ''bloods'' \<in> set collections
   \<and> (\<exists>p'. addRecord ''bloods'' march (withBloods [january]) = Inr p'
          \<and> coll ''bloods'' p' = [january, march]
          \<and> (\<forall>k'. k' \<noteq> ''bloods'' \<longrightarrow> getProp k' p' = getProp k' (withBloods [january])))"
proof -
  have l: "is_ledger (withBloods [january])" by (rule is_ledger_samples)
  have k: "''bloods'' \<in> set collections" by (simp add: collections_def)
  have c: "coll ''bloods'' (withBloods [january]) = [january]"
    by (simp add: coll_def withBloods_def EMPTY_def collections_def)
  show ?thesis
    using l k c addRecord_appends [OF l k, of march] by simp
qed

text \<open>The guard of \<open>MedsTab_add\<close> and \<open>NotesTab_add\<close>: a blank name or text saves nothing.\<close>

lemma blank_not_saved:
  "getProp ''name'' form = Inr (Str s) \<Longrightarrow> trim s = [] \<Longrightarrow>
   MedsTab_add r d (form, p) = Inr (form, p)"
  "getProp ''text'' form = Inr (Str s) \<Longrightarrow> trim s = [] \<Longrightarrow>
   NotesTab_add r d (form, p) = Inr (form, p)"
  by (simp_all add: bindE_def)

text \<open>
  C7. On a well-shaped ledger, deleting an identifier that no record of the collection
  carries returns the very same ledger, without error; and whatever the identifier,
  a second delete of it changes nothing after the first.
\<close>

theorem deleteRecord_absent:
  assumes "is_ledger p" and "k \<in> set collections"
  shows "((\<forall>b \<in> set (coll k p). idOf b \<noteq> Str i) \<longrightarrow> deleteRecord k i p = Inr p)
       \<and> (\<exists>p'. deleteRecord k i p = Inr p' \<and> deleteRecord k i p' = Inr p')"
proof -
  from assms obtain kvs xs where p: "p = Obj kvs" "map_of kvs k = Some (Arr xs)"
    "list_all is_record xs"
    by (rule is_ledger_coll)
  let ?P = "\<lambda>b. idOf b \<noteq> Str i"
  have d: "deleteRecord k i p = Inr (Obj (setProp k (Arr (filter ?P xs)) kvs))"
    using p by (simp add: deleteRecord_Obj)
  have 1: "(\<forall>b \<in> set (coll k p). ?P b) \<longrightarrow> deleteRecord k i p = Inr p"
    using p d by (simp add: coll_Obj setProp_same)
  have "list_all is_record (filter ?P xs)" using p(3) by (simp add: list_all_iff)
  then have "deleteRecord k i (Obj (setProp k (Arr (filter ?P xs)) kvs))
      = Inr (Obj (setProp k (Arr (filter ?P (filter ?P xs)))
                    (setProp k (Arr (filter ?P xs)) kvs)))"
    by (intro deleteRecord_Obj) (simp_all add: map_of_setProp)
  then have 2: "deleteRecord k i (Obj (setProp k (Arr (filter ?P xs)) kvs))
      = Inr (Obj (setProp k (Arr (filter ?P xs)) kvs))"
    by (simp add: setProp_same map_of_setProp)
  from 1 2 d show ?thesis by simp
qed

theorem deleteRecord_absent_witness:
  "is_ledger (withBloods [march]) \<and> ''bloods'' \<in> set collections
   \<and> map idOf (coll ''bloods'' (withBloods [march])) = [Str ''p7q2'']
   \<and> deleteRecord ''bloods'' ''k3x9'' (withBloods [march]) = Inr (withBloods [march])"
proof -
  have l: "is_ledger (withBloods [march])" by (simp add: sample_defs)
  have k: "''bloods'' \<in> set collections" by (simp add: collections_def)
  have n: "map idOf (coll ''bloods'' (withBloods [march])) = [Str ''p7q2'']"
    by (simp add: coll_def idOf_def sample_defs)
  then have "\<forall>b \<in> set (coll ''bloods'' (withBloods [march])). idOf b \<noteq> Str ''k3x9''"
    by (cases "coll ''bloods'' (withBloods [march])") auto
  then show ?thesis
    using l k n deleteRecord_absent [OF l k, of "''k3x9''"] by simp
qed

text \<open>
  C10. On a well-shaped ledger, \<open>deleteRecord\<close> leaves in the collection exactly the
  records whose identifier differs from the given one, in their previous order: every
  record carrying the identifier goes in the one call, however many there are, and
  no other property of the ledger changes.
\<close>

theorem deleteRecord_removes_all:
  assumes "is_ledger p" and "k \<in> set collections"
  shows "\<exists>p'. deleteRecord k i p = Inr p'
            \<and> coll k p' = filter (\<lambda>b. idOf b \<noteq> Str i) (coll k p)
            \<and> (\<forall>b \<in> set (coll k p'). idOf b \<noteq> Str i)
            \<and> subseq (coll k p') (coll k p)
            \<and> (\<forall>k'. k' \<noteq> k \<longrightarrow> getProp k' p' = getProp k' p)"
proof -
  from assms obtain kvs xs where "p = Obj kvs" and "map_of kvs k = Some (Arr xs)"
    and "list_all is_record xs"
    by (rule is_ledger_coll)
  then show ?thesis
    by (simp add: deleteRecord_Obj coll_def map_of_setProp)
qed

theorem deleteRecord_removes_all_witness:
  "is_ledger (withBloods [january, march, january]) \<and> ''bloods'' \<in> set collections
   \<and> (\<exists>p'. deleteRecord ''bloods'' ''k3x9'' (withBloods [january, march, january]) = Inr p'
          \<and> coll ''bloods'' p' = [march])"
proof -
  have l: "is_ledger (withBloods [january, march, january])" by (simp add: sample_defs)
  have k: "''bloods'' \<in> set collections" by (simp add: collections_def)
  have c: "filter (\<lambda>b. idOf b \<noteq> Str ''k3x9'') (coll ''bloods'' (withBloods [january, march, january]))
           = [march]"
    by (simp add: coll_def idOf_def sample_defs)
  show ?thesis
    using l k c deleteRecord_removes_all [OF l k, of "''k3x9''"] by auto
qed

section \<open>The latest record\<close>










text \<open>
  Outside dates of that form the order is the locale's, and the model leaves the
  view unspecified; a single record is returned whatever its date.
\<close>

lemma latestOf_other_dates:
  "latestOf (Arr [Obj [(''id'', Str ''x''), (''date'', Str ''a'')],
                  Obj [(''id'', Str ''y''), (''date'', Str ''B'')]]) = Unspecified"
  "latestOf (Arr [Obj [(''id'', Str ''x''), (''date'', Str ''a'')]])
     = Returns (Obj [(''id'', Str ''x''), (''date'', Str ''a'')])"
  by (simp_all add: latestOf_def sortByDate_def has_isoDate_def isoDate_def at_last_def)


section \<open>Import\<close>

text \<open>
  C5. A text that is not a JSON text leaves the state of the application, and so the
  ledger in memory, as it was, and an alert is shown: \<^verbatim>\<open>Invalid file\<close> by the upload
  of App.tsx, \<^verbatim>\<open>Invalid JSON\<close> by the import of part_000.
\<close>

theorem import_rejects_invalid:
  "upload (Some (Junk s)) a = (a, Some ''Invalid file'')
   \<and> importJson (Junk s) a = (a, ''Invalid JSON'')"
  by (simp add: upload_def importJson_def JSON_parse_def)

theorem import_rejects_invalid_witness:
  "upload (Some (Junk ''not json'')) paulsApp = (paulsApp, Some ''Invalid file'')
   \<and> importJson (Junk ''not json'') paulsApp = (paulsApp, ''Invalid JSON'')
   \<and> db paulsApp = withBloods [january]"
  using import_rejects_invalid [of "''not json''" paulsApp]
  by (simp add: paulsApp_def)

text \<open>
  C6. A JSON text is accepted whatever it denotes: the ledger in memory becomes the
  parsed value, with no check of its shape, in both variants. The witness imports the
  text \<^verbatim>\<open>5\<close>, after which the ledger in memory is the number 5.
\<close>

theorem import_accepts_any:
  "upload (Some (Doc j)) a = (setDb (fromJSON j) a, None)
   \<and> db (fst (upload (Some (Doc j)) a)) = fromJSON j
   \<and> importJson (Doc j) a
       = (setDb (fromJSON j) a, ''Imported JSON for '' @ profileName (profile a))
   \<and> db (fst (importJson (Doc j) a)) = fromJSON j"
  by (simp add: upload_def importJson_def JSON_parse_def setDb_def)

theorem import_accepts_any_witness:
  "db (fst (upload (Some (Doc (JNum 5))) paulsApp)) = Number (Fin 5)
   \<and> db (fst (importJson (Doc (JNum 5)) paulsApp)) = Number (Fin 5)
   \<and> \<not> is_ledger (Number (Fin 5))"
  using import_accepts_any [of "JNum 5" paulsApp] by (simp add: setDb_def)

text \<open>After such an import the views of the latest record throw.\<close>

lemma wrong_shape_views_throw:
  "latestBlood (fromJSON (JNum 5)) = Throws TypeError"
  "latestVitals (fromJSON (JNum 5)) = Throws TypeError"
  "recentBlood (fromJSON (JNum 5)) = Inl TypeError"
  by (simp_all add: latestBlood_def latestVitals_def recentBlood_def latestOf_def bindE_def)

section \<open>Loading\<close>

text \<open>What \<open>loadFor\<close> of App.tsx returns, by what the slot holds.\<close>

lemma loadFor_cases:
  "st (storageKey p) = None \<Longrightarrow> loadFor st p = EMPTY"
  "st (storageKey p) = Some (Doc j) \<Longrightarrow> loadFor st p = fromJSON j"
  "st (storageKey p) = Some (Junk s) \<Longrightarrow> loadFor st p = EMPTY"
  by (simp_all add: loadFor_def truthy_def JSON_parse_def)

text \<open>The load effect of part_000 agrees with it except on a damaged slot.\<close>

lemma App_load_cases:
  "st (storageKey p) = None \<Longrightarrow> App_load st p = Inr EMPTY"
  "st (storageKey p) = Some (Doc j) \<Longrightarrow> App_load st p = Inr (fromJSON j)"
  "st (storageKey p) = Some (Junk []) \<Longrightarrow> App_load st p = Inr EMPTY"
  "s \<noteq> [] \<Longrightarrow> st (storageKey p) = Some (Junk s) \<Longrightarrow> App_load st p = Inl SyntaxError"
  by (simp_all add: App_load_def truthy_def JSON_parse_def)

text \<open>
  C4 fails in part_000. With a damaged slot for Claire, \<open>loadFor\<close> of App.tsx returns
  the empty ledger, but the load effect of part_000 throws the \<^verbatim>\<open>SyntaxError\<close> of
  \<^verbatim>\<open>JSON.parse\<close>: both variants start on that storage, with the empty ledger for
  Paul; selecting Claire then gives the empty ledger in App.tsx and takes the
  application down in part_000.
\<close>

theorem load_effect_throws:
  "loadFor damaged Claire = EMPTY
   \<and> App_load damaged Claire = Inl SyntaxError
   \<and> mount rendersWellShaped damaged = Inr damagedApp
   \<and> App_mount rendersWellShaped damaged = Inr damagedApp
   \<and> selectProfile rendersWellShaped Claire damagedApp
       = Inr \<lparr>profile = Claire, tab = Dashboard, db = EMPTY,
               localStorage = saveFor (localStorage damagedApp) Claire EMPTY\<rparr>
   \<and> App_selectProfile rendersWellShaped Claire damagedApp = Inl (EffectThrew SyntaxError)"
  by (simp add: App_load_def loadFor_def damaged_def damagedApp_def truthy_def JSON_parse_def
      selectProfile_def App_selectProfile_def commit_def App_commit_def loadAndSave_def
      App_loadAndSave_def mount_def App_mount_def setProfile_def saveFor_def storageKey_def
      rendersWellShaped_def is_ledger_samples Let_def)

section \<open>The round trip through JSON\<close>




text \<open>
  The ledgers part_000 builds itself are representable: its two adders keep a
  representable ledger representable.
\<close>

lemma map_fst_setProp:
  "map fst (setProp k v kvs) = (if k \<in> fst ` set kvs then map fst kvs else map fst kvs @ [k])"
  by (induction kvs) (auto simp: rev_image_eqI)

lemma set_setProp: "set (setProp k v kvs) \<subseteq> insert (k, v) (set kvs)"
  by (induction kvs) (auto split: if_splits)

lemma addRecord_representable:
  assumes "is_ledger p" and "k \<in> set collections" and "representable p" and "representable r"
    and "addRecord k r p = Inr p'"
  shows "representable p'"
proof -
  from assms(1,2) obtain kvs xs where p: "p = Obj kvs" "map_of kvs k = Some (Arr xs)"
    by (rule is_ledger_coll)
  have in_kvs: "(k, Arr xs) \<in> set kvs" using p(2) by (rule map_of_SomeD)
  then have xs: "list_all representable xs"
    using assms(3) p(1) by (auto simp: list_all_iff)
  have "k \<in> fst ` set kvs" using in_kvs by force
  then have keys: "distinct (map fst (setProp k (Arr (xs @ [r])) kvs))"
    using assms(3) p(1) by (simp add: map_fst_setProp)
  have "\<forall>kv \<in> set (setProp k (Arr (xs @ [r])) kvs). representable (snd kv)"
    using set_setProp [of k "Arr (xs @ [r])" kvs] xs assms(3,4) p(1)
    by (auto simp: list_all_iff)
  with keys have "representable (Obj (setProp k (Arr (xs @ [r])) kvs))"
    by (simp add: list_all_iff)
  with assms(5) p show ?thesis by (simp add: addRecord_Obj)
qed

lemma part_000_adders_representable:
  assumes "is_ledger p" and "representable p"
  shows "addBlood r d p = Inr p' \<Longrightarrow> representable p'"
    and "addNote r d p = Inr p' \<Longrightarrow> representable p'"
proof -
  have kb: "''bloods'' \<in> set collections" and kn: "''notes'' \<in> set collections"
    by (simp_all add: collections_def)
  show "addBlood r d p = Inr p' \<Longrightarrow> representable p'"
    unfolding addBlood_def
    by (erule addRecord_representable [OF assms(1) kb assms(2), rotated]) simp
  show "addNote r d p = Inr p' \<Longrightarrow> representable p'"
    unfolding addNote_def
    by (erule addRecord_representable [OF assms(1) kn assms(2), rotated]) simp
qed

text \<open>
  C2 fails in App.tsx. A blood panel saved from a form whose ApoB input was filled
  and cleared again carries \<^verbatim>\<open>apoB: NaN\<close>, since \<open>numberOrEmpty\<close> lets
  \<^verbatim>\<open>NaN\<close> through; \<^verbatim>\<open>JSON.stringify\<close> writes it as \<^verbatim>\<open>null\<close>, and the ledger
  read back differs from the ledger saved.
\<close>

theorem roundtrip_loses_NaN:
  "Bloods_add ''0.p7q2'' ''2024-05-21'' (cleared, EMPTY)
     = Inr (freshForm [] ''0.p7q2'' ''2024-05-21'', withBloods [cleared])
   \<and> coll ''bloods'' (withBloods [cleared])
     = [Obj [(''id'', Str ''w5m1''), (''date'', Str ''2024-05-20''), (''apoB'', Number NaN)]]
   \<and> coll ''bloods'' (loadFor (saveFor noStorage Paul (withBloods [cleared])) Paul)
     = [Obj [(''id'', Str ''w5m1''), (''date'', Str ''2024-05-20''), (''apoB'', Null)]]
   \<and> loadFor (saveFor noStorage Paul (withBloods [cleared])) Paul \<noteq> withBloods [cleared]"
  by (simp add: sample_defs addRecord_def bindE_def coll_def loadFor_def saveFor_def
      stringified_def truthy_def JSON_parse_def)

section \<open>Profiles\<close>

lemma storageKey_inj [simp]: "storageKey p = storageKey q \<longleftrightarrow> p = q"
  by (cases p; cases q) (simp_all add: storageKey_def)

lemma saveFor_slot [simp]:
  "saveFor st p v (storageKey q) = (if q = p then Some (stringified v) else st (storageKey q))"
  by (simp add: saveFor_def)

text \<open>A mutation asks for a new ledger and for nothing else.\<close>

lemma mutate_frame:
  assumes "mutate m a = Inr a'"
  shows "profile a' = profile a" and "tab a' = tab a" and "localStorage a' = localStorage a"
  using assms
  by (cases m; auto simp: update_def bindE_def upload_def resetAll_def setDb_def JSON_parse_def
        split: sum.splits rawtext.splits)+







text \<open>
  When the render of the loaded ledger throws, the selection takes the application
  down and leaves in the slot of the new profile the ledger of the previous one,
  written by the first run of the save effect.
\<close>

lemma selectProfile_crash:
  assumes "p \<noteq> profile a" and "renders (tab a) (db a)"
    and "\<not> renders (tab a) (loadFor (localStorage a) p)"
  shows "selectProfile renders p a = Inl (RenderThrew (saveFor (localStorage a) p (db a)))"
  using assms
  by (simp add: selectProfile_def commit_def loadAndSave_def setProfile_def Let_def)


lemma App_load_readable:
  "readable (st (storageKey p)) \<Longrightarrow> App_load st p = Inr (loadFor st p)"
  by (cases "st (storageKey p)" rule: readable.cases)
     (simp_all add: App_load_def loadFor_def truthy_def JSON_parse_def)


lemma App_loadAndSave_readable:
  "readable (localStorage a (storageKey (profile a))) \<Longrightarrow>
   App_loadAndSave renders a = loadAndSave renders a"
  by (simp add: App_loadAndSave_def loadAndSave_def App_load_readable Let_def)



lemma App_mount_readable:
  "readable (st (storageKey Paul)) \<Longrightarrow> App_mount renders st = mount renders st"
  by (simp add: App_mount_def mount_def App_loadAndSave_readable)

text \<open>
  What the application writes is readable, and after every event that returns the
  slot of the active profile holds the ledger in memory, which has rendered.
\<close>

lemma fromJSON_defined: "fromJSON j \<noteq> Undef"
  by (cases j) simp_all


lemma loadFor_defined: "loadFor st p \<noteq> Undef"
  by (auto simp: loadFor_def EMPTY_def JSON_parse_def fromJSON_defined
      split: option.splits rawtext.splits)

lemma reachable_invariants:
  "mount renders st = Inr a \<Longrightarrow> saved a \<and> renders (tab a) (db a)"
  "selectProfile renders p a = Inr b \<Longrightarrow> saved a \<and> renders (tab a) (db a) \<Longrightarrow>
     saved b \<and> renders (tab b) (db b)"
  "perform renders m a = Inr b \<Longrightarrow> saved a \<and> renders (tab a) (db a) \<Longrightarrow>
     saved b \<and> renders (tab b) (db b)"
  "openTab renders t a = Inr b \<Longrightarrow> saved a \<and> renders (tab a) (db a) \<Longrightarrow>
     saved b \<and> renders (tab b) (db b)"
proof -
  show "mount renders st = Inr a \<Longrightarrow> saved a \<and> renders (tab a) (db a)"
    by (auto simp: mount_def loadAndSave_def saved_def Let_def split: if_splits)
  show "selectProfile renders p a = Inr b \<Longrightarrow> saved a \<and> renders (tab a) (db a) \<Longrightarrow>
     saved b \<and> renders (tab b) (db b)"
    by (auto simp: selectProfile_def commit_def loadAndSave_def setProfile_def saved_def Let_def
        split: if_splits)
  show "openTab renders t a = Inr b \<Longrightarrow> saved a \<and> renders (tab a) (db a) \<Longrightarrow>
     saved b \<and> renders (tab b) (db b)"
    by (auto simp: openTab_def commit_def setTab_def saved_def split: if_splits)
  show "perform renders m a = Inr b \<Longrightarrow> saved a \<and> renders (tab a) (db a) \<Longrightarrow>
     saved b \<and> renders (tab b) (db b)"
  proof -
    assume p: "perform renders m a = Inr b" and s: "saved a \<and> renders (tab a) (db a)"
    from p obtain a' where a': "mutate m a = Inr a'" "commit renders a a' = Inr b"
      by (auto simp: perform_def split: sum.splits)
    from mutate_frame [OF a'(1)] a'(2) s show ?thesis
      by (auto simp: commit_def saved_def split: if_splits)
  qed
qed

text \<open>
  The mutations of part_000 are among those of \<open>mutate\<close>: its import and its reset
  set what those of App.tsx set, and its two adders are instances of \<open>Add\<close>.
\<close>

lemma part_000_mutations:
  "fst (importJson t a) = fst (upload (Some t) a)"
  "\<exists>panel. update (addBlood r d) a = mutate (Add ''bloods'' panel) a"
  "\<exists>note. update (addNote r d) a = mutate (Add ''notes'' note) a"
  by (auto simp: importJson_def upload_def addBlood_def addNote_def split: sum.splits)

text \<open>
  The sample application is reached from the empty browser: open the blood panels,
  save the January panel, open the import and export tab.
\<close>

lemma paulsApp_reached:
  "(case mount rendersWellShaped noStorage of
      Inl c \<Rightarrow> Inl c
    | Inr a \<Rightarrow>
        run rendersWellShaped
          [OpenTab BloodsTab, Mutation (Add ''bloods'' january), OpenTab ImportExportTab] a)
   = Inr paulsApp"
  by (simp add: mount_def loadAndSave_def loadFor_def noStorage_def perform_def update_def
      openTab_def setTab_def commit_def bindE_def setDb_def rendersWellShaped_def paulsApp_def
      saveFor_def Let_def sample_defs addRecord_def)







section \<open>Identifiers\<close>

lemma idOf_freshForm: "idOf (freshForm extra r d) = Str (uid r)"
  by (simp add: idOf_def freshForm_def)

text \<open>
  C9, as the code has it. Identifiers are drawn at random and never compared. On a
  well-shaped ledger whose collection has pairwise distinct identifiers, the
  identifiers are pairwise distinct after \<open>addRecord\<close> exactly when the identifier
  of the added record is not yet in the collection; for a fresh form that identifier
  is \<open>uid\<close> of the draw. \<open>deleteRecord\<close> keeps distinct identifiers distinct.
\<close>

theorem identifiers_unique_if_fresh:
  assumes "is_ledger p" and "k \<in> set collections" and "distinct (map idOf (coll k p))"
  shows "(\<exists>p'. addRecord k r p = Inr p'
            \<and> (distinct (map idOf (coll k p')) \<longleftrightarrow> idOf r \<notin> idOf ` set (coll k p)))
       \<and> (\<exists>p'. addRecord k (freshForm extra t d) p = Inr p'
            \<and> (distinct (map idOf (coll k p')) \<longleftrightarrow> Str (uid t) \<notin> idOf ` set (coll k p)))
       \<and> (\<exists>p'. deleteRecord k i p = Inr p' \<and> distinct (map idOf (coll k p')))"
proof -
  from assms(1,2) obtain kvs xs where p: "p = Obj kvs" "map_of kvs k = Some (Arr xs)"
    "list_all is_record xs"
    by (rule is_ledger_coll)
  have xs: "distinct (map idOf xs)" using assms(3) p by (simp add: coll_Obj)
  have add: "\<exists>p'. addRecord k r' p = Inr p'
            \<and> (distinct (map idOf (coll k p')) \<longleftrightarrow> idOf r' \<notin> idOf ` set (coll k p))" for r'
    using p xs by (simp add: addRecord_Obj coll_def map_of_setProp)
  have del: "\<exists>p'. deleteRecord k i p = Inr p' \<and> distinct (map idOf (coll k p'))"
    using p xs by (simp add: deleteRecord_Obj coll_def map_of_setProp distinct_map_filter)
  from add [of r] add [of "freshForm extra t d"] del show ?thesis
    by (simp add: idOf_freshForm)
qed

theorem identifiers_unique_if_fresh_witness:
  "is_ledger (withBloods [january]) \<and> ''bloods'' \<in> set collections
   \<and> distinct (map idOf (coll ''bloods'' (withBloods [january])))
   \<and> idOf march \<notin> idOf ` set (coll ''bloods'' (withBloods [january]))
   \<and> (\<exists>p'. addRecord ''bloods'' march (withBloods [january]) = Inr p'
          \<and> distinct (map idOf (coll ''bloods'' p')))"
proof -
  have l: "is_ledger (withBloods [january])" by (rule is_ledger_samples)
  have k: "''bloods'' \<in> set collections" by (simp add: collections_def)
  have c: "map idOf (coll ''bloods'' (withBloods [january])) = [Str ''k3x9'']"
    and m: "idOf march = Str ''p7q2''"
    by (simp_all add: coll_def idOf_def sample_defs)
  have d: "distinct (map idOf (coll ''bloods'' (withBloods [january])))"
    by (simp add: c)
  have f: "idOf march \<notin> idOf ` set (coll ''bloods'' (withBloods [january]))"
    by (simp add: coll_def idOf_def sample_defs)
  from identifiers_unique_if_fresh [OF l k d, of march] f
  have "\<exists>p'. addRecord ''bloods'' march (withBloods [january]) = Inr p'
          \<and> distinct (map idOf (coll ''bloods'' p'))"
    by blast
  with l k d f show ?thesis by blast
qed

text \<open>
  C9 as stated fails: when the draw for the form that follows a save repeats the draw
  of the form just saved, two clicks on \<^verbatim>\<open>Save panel\<close> leave two blood panels with
  one identifier.
\<close>

theorem uid_collision:
  "bindE (Bloods_add ''0.k3x9'' ''2024-01-11'' (freshForm [] ''0.k3x9'' ''2024-01-10'', EMPTY))
         (Bloods_add ''0.p7q2'' ''2024-01-12'')
     = Inr (freshForm [] ''0.p7q2'' ''2024-01-12'',
            withBloods [freshForm [] ''0.k3x9'' ''2024-01-10'',
                        freshForm [] ''0.k3x9'' ''2024-01-11''])
   \<and> map idOf (coll ''bloods''
         (withBloods [freshForm [] ''0.k3x9'' ''2024-01-10'',
                      freshForm [] ''0.k3x9'' ''2024-01-11'']))
     = [Str ''k3x9'', Str ''k3x9'']
   \<and> \<not> distinct (map idOf (coll ''bloods''
         (withBloods [freshForm [] ''0.k3x9'' ''2024-01-10'',
                      freshForm [] ''0.k3x9'' ''2024-01-11''])))"
  by (simp add: bindE_def addRecord_def coll_def idOf_def sample_defs)

end
